theory Spec2Isabelle
  imports Main "HOL-Library.Word" "HOL-Library.Sublist"
begin

unbundle bit_operations_syntax

section \<open>JavaScript values used by the hook\<close>

text \<open>
  The development embeds the functions \<^verbatim>\<open>send\<close>, \<^verbatim>\<open>readStream\<close> and \<^verbatim>\<open>stop\<close> of
  \<^verbatim>\<open>src/useLLM.ts\<close>, in the later of the two variants the file holds: the one with the
  \<^verbatim>\<open>onComplete\<close> and \<^verbatim>\<open>onError\<close> callbacks and the \<^verbatim>\<open>lastCallId\<close> state. A
  JavaScript string is a sequence of UTF-16 code units, a chunk delivered by the body
  reader is a \<^verbatim>\<open>Uint8Array\<close>.
\<close>

type_synonym byte = "8 word"
type_synonym jsstring = "16 word list"

text \<open>An ASCII literal of the source, as a JavaScript string and as the bytes of its
  UTF-8 encoding.\<close>

definition js :: "string \<Rightarrow> jsstring" where
  "js s = map of_char s"

definition utf8 :: "string \<Rightarrow> byte list" where
  "utf8 s = map of_char s"

text \<open>\<^verbatim>\<open>String.prototype.startsWith(p)\<close> and \<^verbatim>\<open>String.prototype.substring(n)\<close>
  (one argument, which is the only form the hook uses).\<close>

definition startsWith :: "jsstring \<Rightarrow> jsstring \<Rightarrow> bool" where
  "startsWith s p = (take (length p) s = p)"

definition substring :: "jsstring \<Rightarrow> nat \<Rightarrow> jsstring" where
  "substring s n = drop n s"

text \<open>A non-negative integer interpolated into a template literal: its decimal digits.\<close>

fun decimal :: "nat \<Rightarrow> jsstring" where
  "decimal n = (if n < 10 then [of_nat (48 + n)]
                else decimal (n div 10) @ [of_nat (48 + n mod 10)])"

declare decimal.simps [simp del]

section \<open>The platform's text decoder\<close>

text \<open>
  \<^verbatim>\<open>new TextDecoder("utf-8")\<close> is not code of the repository. Its behaviour is
  transcribed from the UTF-8 decoder of the WHATWG Encoding Standard: the decoder state,
  the handler run on every byte, the replacement character U+FFFD emitted on an error,
  the removal of a leading byte order mark, and the conversion of the code points to
  UTF-16 code units.
\<close>

record utf8_decoder =
  code_point :: "32 word"
  bytes_seen :: nat
  bytes_needed :: nat
  lower_boundary :: byte
  upper_boundary :: byte

definition utf8_initial :: utf8_decoder where
  "utf8_initial =
     \<lparr>code_point = 0, bytes_seen = 0, bytes_needed = 0,
      lower_boundary = 0x80, upper_boundary = 0xBF\<rparr>"

text \<open>The handler's step for a byte that arrives while no continuation byte is awaited.\<close>

definition utf8_lead :: "byte \<Rightarrow> 32 word list \<times> utf8_decoder" where
  "utf8_lead b =
     (if b \<le> 0x7F then ([ucast b], utf8_initial)
      else if 0xC2 \<le> b \<and> b \<le> 0xDF then
        ([], utf8_initial\<lparr>bytes_needed := 1, code_point := ucast (b AND 0x1F)\<rparr>)
      else if 0xE0 \<le> b \<and> b \<le> 0xEF then
        ([], utf8_initial
               \<lparr>lower_boundary := (if b = 0xE0 then 0xA0 else 0x80),
                upper_boundary := (if b = 0xED then 0x9F else 0xBF),
                bytes_needed := 2, code_point := ucast (b AND 0xF)\<rparr>)
      else if 0xF0 \<le> b \<and> b \<le> 0xF4 then
        ([], utf8_initial
               \<lparr>lower_boundary := (if b = 0xF0 then 0x90 else 0x80),
                upper_boundary := (if b = 0xF4 then 0x8F else 0xBF),
                bytes_needed := 3, code_point := ucast (b AND 0x7)\<rparr>)
      else ([0xFFFD], utf8_initial))"

text \<open>The handler on one byte. A byte outside the boundaries ends the pending sequence with
  an error and is restored to the queue, that is, handled again from the initial state.\<close>

definition utf8_handler :: "utf8_decoder \<Rightarrow> byte \<Rightarrow> 32 word list \<times> utf8_decoder" where
  "utf8_handler d b =
     (if bytes_needed d = 0 then utf8_lead b
      else if b < lower_boundary d \<or> upper_boundary d < b then
        (case utf8_lead b of (out, d') \<Rightarrow> (0xFFFD # out, d'))
      else
        (let cp = push_bit 6 (code_point d) OR ucast (b AND 0x3F);
             seen = bytes_seen d + 1
         in if seen \<noteq> bytes_needed d then
              ([], d\<lparr>lower_boundary := 0x80, upper_boundary := 0xBF,
                      code_point := cp, bytes_seen := seen\<rparr>)
            else ([cp], utf8_initial)))"

fun utf8_run :: "utf8_decoder \<Rightarrow> byte list \<Rightarrow> 32 word list \<times> utf8_decoder" where
  "utf8_run d [] = ([], d)"
| "utf8_run d (b # bs) =
     (case utf8_handler d b of
        (out, d') \<Rightarrow>
          (case utf8_run d' bs of (outs, d'') \<Rightarrow> (out @ outs, d'')))"

text \<open>End of queue: a pending incomplete sequence is an error.\<close>

definition utf8_flush :: "utf8_decoder \<Rightarrow> 32 word list" where
  "utf8_flush d = (if bytes_needed d \<noteq> 0 then [0xFFFD] else [])"

text \<open>The decoder was built without \<^verbatim>\<open>ignoreBOM\<close>: a leading U+FEFF is dropped.\<close>

fun strip_bom :: "32 word list \<Rightarrow> 32 word list" where
  "strip_bom [] = []"
| "strip_bom (c # cs) = (if c = 0xFEFF then cs else c # cs)"

fun utf16 :: "32 word list \<Rightarrow> jsstring" where
  "utf16 [] = []"
| "utf16 (c # cs) =
     (if c < 0x10000 then [ucast c]
      else [ucast (0xD800 + drop_bit 10 (c - 0x10000)),
            ucast (0xDC00 + ((c - 0x10000) AND 0x3FF))]) @ utf16 cs"

text \<open>
  \<^verbatim>\<open>decoder.decode(value)\<close> as the hook calls it: with no \<^verbatim>\<open>{stream: true}\<close> option.
  Every such call starts from a fresh decoder state and flushes at the end of its input;
  \<^verbatim>\<open>decode(undefined)\<close> is the empty string.
\<close>

definition decode :: "byte list option \<Rightarrow> jsstring" where
  "decode v =
     (case v of
        None \<Rightarrow> []
      | Some bs \<Rightarrow>
          (case utf8_run utf8_initial bs of
             (out, d) \<Rightarrow> utf16 (strip_bom (out @ utf8_flush d))))"

section \<open>Call State and the effects of a call\<close>

text \<open>The four \<^verbatim>\<open>useState\<close> cells of the hook.\<close>

record call_state =
  response :: jsstring
  idle :: bool
  error :: jsstring
  lastCallId :: jsstring

definition initial_state :: call_state where
  "initial_state = \<lparr>response = [], idle = True, error = [], lastCallId = []\<rparr>"

text \<open>
  Everything a call does besides returning: the state setters, the calls on the body
  reader, the caller's callbacks and the console, in the order the code performs them.
\<close>

datatype effect =
    SetResponse jsstring
  | SetIdle bool
  | SetError jsstring
  | SetLastCallId jsstring
  | ReaderRead
  | ReaderCancel
  | ReaderReleaseLock
  | OnError jsstring
  | OnComplete jsstring
  | ConsoleError jsstring

fun apply_effect :: "call_state \<Rightarrow> effect \<Rightarrow> call_state" where
  "apply_effect s (SetResponse t) = s\<lparr>response := t\<rparr>"
| "apply_effect s (SetIdle b) = s\<lparr>idle := b\<rparr>"
| "apply_effect s (SetError t) = s\<lparr>error := t\<rparr>"
| "apply_effect s (SetLastCallId t) = s\<lparr>lastCallId := t\<rparr>"
| "apply_effect s ReaderRead = s"
| "apply_effect s ReaderCancel = s"
| "apply_effect s ReaderReleaseLock = s"
| "apply_effect s (OnError t) = s"
| "apply_effect s (OnComplete t) = s"
| "apply_effect s (ConsoleError t) = s"

definition run :: "call_state \<Rightarrow> effect list \<Rightarrow> call_state" where
  "run s es = foldl apply_effect s es"

text \<open>The arguments the callbacks received and the values written to the response,
  error and idle cells, each in order.\<close>

definition on_error_calls :: "effect list \<Rightarrow> jsstring list" where
  "on_error_calls es = concat (map (\<lambda>e. case e of OnError t \<Rightarrow> [t] | _ \<Rightarrow> []) es)"

definition on_complete_calls :: "effect list \<Rightarrow> jsstring list" where
  "on_complete_calls es = concat (map (\<lambda>e. case e of OnComplete t \<Rightarrow> [t] | _ \<Rightarrow> []) es)"

definition published :: "effect list \<Rightarrow> jsstring list" where
  "published es = concat (map (\<lambda>e. case e of SetResponse t \<Rightarrow> [t] | _ \<Rightarrow> []) es)"

definition errors_set :: "effect list \<Rightarrow> jsstring list" where
  "errors_set es = concat (map (\<lambda>e. case e of SetError t \<Rightarrow> [t] | _ \<Rightarrow> []) es)"

definition idle_writes :: "effect list \<Rightarrow> bool list" where
  "idle_writes es = concat (map (\<lambda>e. case e of SetIdle b \<Rightarrow> [b] | _ \<Rightarrow> []) es)"

section \<open>The environment of a call\<close>

text \<open>
  What one \<^verbatim>\<open>await reader.read()\<close> settles to: \<^verbatim>\<open>{value, done}\<close>, or a rejection
  with the error's \<^verbatim>\<open>name\<close> and \<^verbatim>\<open>message\<close>. The body of a response is the list
  of its reads, each with a flag telling whether the cancellation signal was triggered
  while that read was pending (the only point where the loop gives up control). A body
  whose list is used up is closed: the read gives \<^verbatim>\<open>{value: undefined, done: true}\<close>.
  The caller's callbacks are taken to return normally.
\<close>

datatype read_outcome =
    Resolves "byte list option" bool
  | Rejects jsstring jsstring

type_synonym read_step = "bool \<times> read_outcome"

text \<open>A body that delivers the given chunks, with no cancellation, and closes.\<close>

definition chunks :: "byte list list \<Rightarrow> read_step list" where
  "chunks cs = map (\<lambda>c. (False, Resolves (Some c) False)) cs"

text \<open>The text accumulated from chunks that are each decoded on their own.\<close>

definition accumulated :: "byte list list \<Rightarrow> jsstring" where
  "accumulated cs = concat (map (\<lambda>c. decode (Some c)) cs)"

text \<open>
  \<^verbatim>\<open>response?.body?.getReader()\<close>: the reader of the body, or \<^verbatim>\<open>undefined\<close> when
  the response has no body (\<^verbatim>\<open>response.body\<close> is \<^verbatim>\<open>null\<close>, as for status 204).
  A method call on \<^verbatim>\<open>undefined\<close> raises a \<^verbatim>\<open>TypeError\<close> whose message is the
  engine's: \<open>NoBody\<close> carries that message for each method name.
\<close>

datatype response_body =
    Body "read_step list"
  | NoBody "string \<Rightarrow> jsstring"

record http_response =
  status :: nat
  statusText :: jsstring
  x_callId :: "jsstring option"
  body :: response_body

text \<open>\<^verbatim>\<open>response.ok\<close>: the status is in the range 200 to 299.\<close>

definition ok :: "http_response \<Rightarrow> bool" where
  "ok r = (200 \<le> status r \<and> status r \<le> 299)"

text \<open>\<^verbatim>\<open>await fetch(url, options)\<close>: rejected with an error of the given message, or
  resolved with a response.\<close>

datatype fetch_outcome =
    FetchRejects jsstring
  | FetchResolves http_response

section \<open>readStream\<close>

text \<open>
  The \<^verbatim>\<open>while (true)\<close> loop of \<^verbatim>\<open>readStream\<close>. Arguments: the streaming flag,
  \<^verbatim>\<open>signal.aborted\<close> at the top of the iteration, the reads still to come and
  \<^verbatim>\<open>result\<close>. Value: \<^verbatim>\<open>result\<close> and \<^verbatim>\<open>errorInRead\<close> at the exit of the loop,
  and the effects of the loop. The \<^verbatim>\<open>finally\<close> block releases the reader's lock when
  the signal is triggered.
\<close>

fun readLoop ::
  "bool \<Rightarrow> bool \<Rightarrow> read_step list \<Rightarrow> jsstring \<Rightarrow> jsstring \<times> jsstring \<times> effect list" where
  "readLoop stream True reader result = (result, [], [ReaderCancel, ReaderReleaseLock])"
| "readLoop stream False [] result =
     (result, [], ReaderRead # (if stream then [SetResponse result] else []))"
| "readLoop stream False ((ab, Rejects name message) # reader) result =
     (result,
      (if name \<noteq> js ''AbortError'' then js ''Read error: '' @ message else []),
      ReaderRead # (if ab then [ReaderReleaseLock] else []))"
| "readLoop stream False ((ab, Resolves v done) # reader) result =
     (let decoded = decode v;
          result' = result @ decoded;
          effects = ReaderRead # (if stream then [SetResponse result'] else [])
                      @ (if ab then [ReaderReleaseLock] else [])
      in if startsWith decoded (js ''Error:'') then (result', substring decoded 6, effects)
         else if done then (result', [], effects)
         else (case readLoop stream ab reader result' of
                 (r, e, t) \<Rightarrow> (r, e, effects @ t)))"

text \<open>
  \<^verbatim>\<open>readStream(reader, decoder, stream, {signal}, onComplete, onError)\<close> for a reader
  that exists. The two callbacks are optional: the flags say whether the caller supplied
  them. Value: the returned text and the effects.
\<close>

definition readStream ::
  "read_step list \<Rightarrow> bool \<Rightarrow> bool \<Rightarrow> bool \<Rightarrow> bool \<Rightarrow> jsstring \<times> effect list" where
  "readStream reader stream aborted onComplete onError =
     (case readLoop stream aborted reader [] of
        (result, errorInRead, effects) \<Rightarrow>
          (result,
           effects @ [SetIdle True]
             @ (if errorInRead \<noteq> [] then
                  [SetError errorInRead, ReaderCancel]
                    @ (if onError then [OnError errorInRead] else [])
                else [])
             @ (if onComplete then [OnComplete result] else [])))"

text \<open>
  \<^verbatim>\<open>readStream\<close> when \<^verbatim>\<open>reader\<close> is \<^verbatim>\<open>undefined\<close>: it does not return. Value:
  the message of the \<^verbatim>\<open>TypeError\<close> it throws and the effects before the throw.
  With the signal triggered, \<^verbatim>\<open>reader.cancel()\<close> throws inside the \<^verbatim>\<open>try\<close>, the
  \<^verbatim>\<open>catch\<close> records a read error, and \<^verbatim>\<open>reader.releaseLock()\<close> throws out of the
  \<^verbatim>\<open>finally\<close> block. Otherwise \<^verbatim>\<open>reader.read()\<close> throws, the \<^verbatim>\<open>catch\<close> records a
  read error, the loop is left, idle and the error are set, and \<^verbatim>\<open>reader.cancel()\<close>
  throws before any callback is called.
\<close>

definition readStream_undefined :: "(string \<Rightarrow> jsstring) \<Rightarrow> bool \<Rightarrow> jsstring \<times> effect list" where
  "readStream_undefined tm aborted =
     (if aborted then (tm ''releaseLock'', [])
      else (tm ''cancel'', [SetIdle True, SetError (js ''Read error: '' @ tm ''read'')]))"

text \<open>
  The values the loop decodes and appends before it exits, told from the reads alone:
  those of the reads that resolve, up to and including the first that carries the
  sentinel or reports the end, and stopping before a rejected read and once the signal
  is seen triggered.
\<close>

fun consumed :: "bool \<Rightarrow> read_step list \<Rightarrow> byte list option list" where
  "consumed True reader = []"
| "consumed False [] = []"
| "consumed False ((ab, Rejects name message) # reader) = []"
| "consumed False ((ab, Resolves v done) # reader) =
     v # (if startsWith (decode v) (js ''Error:'') \<or> done then [] else consumed ab reader)"

section \<open>send and stop\<close>

text \<open>What the promise returned by \<^verbatim>\<open>send\<close> resolves to.\<close>

datatype send_result = Reader | Text jsstring | Undefined

text \<open>The text the \<^verbatim>\<open>catch\<close> block of \<^verbatim>\<open>send\<close> gives \<^verbatim>\<open>errorInFetch\<close> for a
  caught error with the given message, and \<^verbatim>\<open>errorInFetch\<close> after the \<^verbatim>\<open>try\<close>
  block when \<^verbatim>\<open>fetch\<close> itself fails or answers with a failure status.\<close>

definition errorInCatch :: "jsstring \<Rightarrow> jsstring" where
  "errorInCatch message =
     js ''Error: Having trouble connecting to chat service. ('' @ message @ js '')''"

definition errorInFetch :: "fetch_outcome \<Rightarrow> jsstring" where
  "errorInFetch f =
     (case f of
        FetchRejects message \<Rightarrow> errorInCatch message
      | FetchResolves r \<Rightarrow>
          (if \<not> ok r then
             js ''Error: Network error for service. ('' @ decimal (status r) @ js '' ''
               @ statusText r @ js '')''
           else []))"

text \<open>The tail of \<^verbatim>\<open>send\<close>, after the \<^verbatim>\<open>try\<close> block.\<close>

definition report_fetch_error :: "bool \<Rightarrow> jsstring \<Rightarrow> effect list" where
  "report_fetch_error onError e =
     (if e \<noteq> [] then
        [SetError e] @ (if onError then [OnError e] else [])
          @ [ConsoleError (js ''Error: Error in fetch. ('' @ e @ js '')'')]
      else [])"

text \<open>
  \<^verbatim>\<open>send\<close>, for the outcome of its \<^verbatim>\<open>fetch\<close> and the state of the signal when the
  response arrives. The request payload does not influence what the hook does with the
  response and is left out. With \<^verbatim>\<open>stream\<close> set the reader is returned while
  \<^verbatim>\<open>readStream\<close> goes on in the background: the effects listed are those of the whole
  call. When the response has no body, \<^verbatim>\<open>readStream\<close> throws: with \<^verbatim>\<open>stream\<close> unset
  the awaited call throws inside the \<^verbatim>\<open>try\<close> and the \<^verbatim>\<open>catch\<close> block takes over, with
  \<^verbatim>\<open>stream\<close> set nothing awaits it and the reader returned is \<^verbatim>\<open>undefined\<close>.
\<close>

definition send ::
  "bool \<Rightarrow> bool \<Rightarrow> bool \<Rightarrow> fetch_outcome \<Rightarrow> bool \<Rightarrow> send_result \<times> effect list" where
  "send stream onComplete onError f aborted =
     (case f of
        FetchRejects message \<Rightarrow>
          (Undefined,
           [SetResponse [], SetIdle False] @ report_fetch_error onError (errorInFetch f))
      | FetchResolves r \<Rightarrow>
          (if \<not> ok r then
             (Undefined,
              [SetResponse [], SetIdle False] @ report_fetch_error onError (errorInFetch f))
           else
             (case body r of
                Body reader \<Rightarrow>
                  (case readStream reader stream aborted onComplete onError of
                     (result, effects) \<Rightarrow>
                       ((if \<not> stream then Text result else Reader),
                        [SetResponse [], SetIdle False,
                         SetLastCallId (case x_callId r of None \<Rightarrow> [] | Some i \<Rightarrow> i),
                         SetIdle False] @ effects))
              | NoBody tm \<Rightarrow>
                  (case readStream_undefined tm aborted of
                     (message, effects) \<Rightarrow>
                       (Undefined,
                        [SetResponse [], SetIdle False,
                         SetLastCallId (case x_callId r of None \<Rightarrow> [] | Some i \<Rightarrow> i),
                         SetIdle False] @ effects
                          @ (if \<not> stream then
                               report_fetch_error onError (errorInCatch message)
                             else []))))))"

text \<open>The error texts a call records, in order: \<^verbatim>\<open>errorInFetch\<close> when the request
  fails, \<^verbatim>\<open>errorInRead\<close> at the exit of the read loop when it is not empty, and for
  a response with no body the read error and then, when \<^verbatim>\<open>readStream\<close> is awaited,
  the text of the \<^verbatim>\<open>catch\<close> block. The list is empty on the paths that are not error
  paths.\<close>

definition call_errors :: "bool \<Rightarrow> fetch_outcome \<Rightarrow> bool \<Rightarrow> jsstring list" where
  "call_errors stream f aborted =
     (case f of
        FetchRejects message \<Rightarrow> [errorInFetch f]
      | FetchResolves r \<Rightarrow>
          (if \<not> ok r then [errorInFetch f]
           else
             (case body r of
                Body reader \<Rightarrow>
                  (if fst (snd (readLoop stream aborted reader [])) = [] then []
                   else [fst (snd (readLoop stream aborted reader []))])
              | NoBody tm \<Rightarrow>
                  (if aborted then [] else [js ''Read error: '' @ tm ''read''])
                    @ (if \<not> stream then
                         [errorInCatch (fst (readStream_undefined tm aborted))]
                       else []))))"

text \<open>The effects of a call from its write of the error field on.\<close>

definition is_SetError :: "effect \<Rightarrow> bool" where
  "is_SetError e = (case e of SetError t \<Rightarrow> True | _ \<Rightarrow> False)"

definition from_error_on :: "effect list \<Rightarrow> effect list" where
  "from_error_on es = dropWhile (\<lambda>e. \<not> is_SetError e) es"

text \<open>\<^verbatim>\<open>stop(controller)\<close> on the hook's state (the abort itself reaches a running call
  through the flags of its reads).\<close>

definition stop :: "call_state \<Rightarrow> call_state" where
  "stop s = s\<lparr>idle := True\<rparr>"

section \<open>Basic facts\<close>

lemma on_complete_calls_simps [simp]:
  "on_complete_calls [] = []"
  "on_complete_calls (e # es) =
     (case e of OnComplete t \<Rightarrow> [t] | _ \<Rightarrow> []) @ on_complete_calls es"
  "on_complete_calls (xs @ ys) = on_complete_calls xs @ on_complete_calls ys"
  by (simp_all add: on_complete_calls_def)

lemma on_error_calls_simps [simp]:
  "on_error_calls [] = []"
  "on_error_calls (e # es) = (case e of OnError t \<Rightarrow> [t] | _ \<Rightarrow> []) @ on_error_calls es"
  "on_error_calls (xs @ ys) = on_error_calls xs @ on_error_calls ys"
  by (simp_all add: on_error_calls_def)

lemma published_simps [simp]:
  "published [] = []"
  "published (e # es) = (case e of SetResponse t \<Rightarrow> [t] | _ \<Rightarrow> []) @ published es"
  "published (xs @ ys) = published xs @ published ys"
  by (simp_all add: published_def)

lemma errors_set_simps [simp]:
  "errors_set [] = []"
  "errors_set (e # es) = (case e of SetError t \<Rightarrow> [t] | _ \<Rightarrow> []) @ errors_set es"
  "errors_set (xs @ ys) = errors_set xs @ errors_set ys"
  by (simp_all add: errors_set_def)

lemma idle_writes_simps [simp]:
  "idle_writes [] = []"
  "idle_writes (e # es) = (case e of SetIdle b \<Rightarrow> [b] | _ \<Rightarrow> []) @ idle_writes es"
  "idle_writes (xs @ ys) = idle_writes xs @ idle_writes ys"
  by (simp_all add: idle_writes_def)

lemma run_simps [simp]:
  "run s [] = s"
  "run s (e # es) = run (apply_effect s e) es"
  "run s (xs @ ys) = run (run s xs) ys"
  by (simp_all add: run_def)

text \<open>The loop itself calls no callback and writes neither the error nor the idle cell.\<close>

lemma readLoop_on_complete_calls [simp]:
  "on_complete_calls (snd (snd (readLoop stream ab reader result))) = []"
  by (induction stream ab reader result rule: readLoop.induct)
     (auto simp: Let_def split: prod.splits)

lemma readLoop_on_error_calls [simp]:
  "on_error_calls (snd (snd (readLoop stream ab reader result))) = []"
  by (induction stream ab reader result rule: readLoop.induct)
     (auto simp: Let_def split: prod.splits)

lemma readLoop_errors_set [simp]:
  "errors_set (snd (snd (readLoop stream ab reader result))) = []"
  by (induction stream ab reader result rule: readLoop.induct)
     (auto simp: Let_def split: prod.splits)

lemma readLoop_idle_writes [simp]:
  "idle_writes (snd (snd (readLoop stream ab reader result))) = []"
  by (induction stream ab reader result rule: readLoop.induct)
     (auto simp: Let_def split: prod.splits)

lemma readLoop_effects:
  assumes "readLoop stream ab reader result = (r, e, t)"
  shows "on_complete_calls t = []" and "on_error_calls t = []"
    and "errors_set t = []" and "idle_writes t = []"
  using assms readLoop_on_complete_calls [of stream ab reader result]
    readLoop_on_error_calls [of stream ab reader result]
    readLoop_errors_set [of stream ab reader result]
    readLoop_idle_writes [of stream ab reader result]
  by simp_all

text \<open>Reading chunks up to the first one whose own text starts with the sentinel.\<close>

lemma accumulated_simps [simp]:
  "accumulated [] = []"
  "accumulated (c # cs) = decode (Some c) @ accumulated cs"
  "accumulated (xs @ ys) = accumulated xs @ accumulated ys"
  by (simp_all add: accumulated_def)

lemma chunks_simps [simp]:
  "chunks [] = []"
  "chunks (c # cs) = (False, Resolves (Some c) False) # chunks cs"
  by (simp_all add: chunks_def)

lemma tl_prefixes_Cons: "tl (prefixes (x # xs)) = [x] # map ((#) x) (tl (prefixes xs))"
  by (cases xs) simp_all

lemma readLoop_to_sentinel:
  assumes "\<forall>p\<in>set pre. \<not> startsWith (decode (Some p)) (js ''Error:'')"
      and "startsWith (decode (Some c)) (js ''Error:'')"
  shows "\<exists>t. readLoop stream False (chunks (pre @ c # post)) result =
               (result @ accumulated (pre @ [c]), substring (decode (Some c)) 6, t)
             \<and> published t =
                 (if stream then map (\<lambda>p. result @ accumulated p) (tl (prefixes (pre @ [c])))
                  else [])
             \<and> length (filter ((=) ReaderRead) t) = Suc (length pre)"
  using assms
proof (induction pre arbitrary: result)
  case Nil
  then show ?case by (simp add: Let_def)
next
  case (Cons p pre)
  from Cons.prems have np: "\<not> startsWith (decode (Some p)) (js ''Error:'')"
    and rest: "\<forall>p\<in>set pre. \<not> startsWith (decode (Some p)) (js ''Error:'')"
    by simp_all
  from Cons.IH [OF rest Cons.prems(2), of "result @ decode (Some p)"]
  obtain t where t: "readLoop stream False (chunks (pre @ c # post)) (result @ decode (Some p)) =
               ((result @ decode (Some p)) @ accumulated (pre @ [c]), substring (decode (Some c)) 6, t)"
     and pub: "published t =
                 (if stream then map (\<lambda>q. (result @ decode (Some p)) @ accumulated q) (tl (prefixes (pre @ [c])))
                  else [])"
     and reads: "length (filter ((=) ReaderRead) t) = Suc (length pre)"
    by blast
  show ?case
    using np t pub reads
    by (simp add: Let_def tl_prefixes_Cons comp_def del: prefixes.simps)
qed

lemma error_run:
  "error (run s es) = (if errors_set es = [] then error s else last (errors_set es))"
proof (induction es arbitrary: s)
  case Nil
  then show ?case by simp
next
  case (Cons e es)
  then show ?case by (cases e) simp_all
qed

lemma errors_set_take: "prefix (errors_set (take n es)) (errors_set es)"
proof -
  have "errors_set es = errors_set (take n es) @ errors_set (drop n es)"
    by (metis append_take_drop_id errors_set_simps(3))
  then show ?thesis by (simp add: prefix_def)
qed

lemma error_run_take:
  "error (run s (take n es)) = error s \<or> error (run s (take n es)) \<in> set (errors_set es)"
proof (cases "errors_set (take n es) = []")
  case True
  then show ?thesis by (simp add: error_run)
next
  case False
  then have "last (errors_set (take n es)) \<in> set (errors_set (take n es))"
    by simp
  moreover have "set (errors_set (take n es)) \<subseteq> set (errors_set es)"
    using errors_set_take [of n es] by (rule set_mono_prefix)
  ultimately have "last (errors_set (take n es)) \<in> set (errors_set es)"
    by blast
  with False show ?thesis by (simp add: error_run)
qed

lemma errorInCatch_not_empty [simp]:
  "errorInCatch message \<noteq> []"
  "[] \<noteq> errorInCatch message"
  by (simp_all add: errorInCatch_def js_def)

lemma errorInFetch_not_empty:
  "errorInFetch (FetchRejects message) \<noteq> []"
  "\<not> ok r \<Longrightarrow> errorInFetch (FetchResolves r) \<noteq> []"
  by (simp_all add: errorInFetch_def js_def)

lemma send_errors_set:
  "errors_set (snd (send stream onComplete onError f aborted)) = call_errors stream f aborted"
proof (cases f)
  case (FetchRejects m)
  then show ?thesis
    by (simp add: send_def call_errors_def report_fetch_error_def errorInFetch_not_empty)
next
  case (FetchResolves r)
  show ?thesis
  proof (cases "ok r")
    case False
    with FetchResolves show ?thesis
      by (simp add: send_def call_errors_def report_fetch_error_def errorInFetch_not_empty)
  next
    case True
    show ?thesis
    proof (cases "body r")
      case (Body reader)
      obtain res e t where l: "readLoop stream aborted reader [] = (res, e, t)"
        by (cases "readLoop stream aborted reader []") auto
      with True FetchResolves Body readLoop_effects [OF l] show ?thesis
        by (simp add: send_def call_errors_def readStream_def)
    next
      case (NoBody tm)
      with True FetchResolves show ?thesis
        by (simp add: send_def call_errors_def readStream_undefined_def
              report_fetch_error_def)
    qed
  qed
qed

lemma call_errors_not_empty: "[] \<notin> set (call_errors stream f aborted)"
proof (cases f)
  case (FetchRejects m)
  with errorInFetch_not_empty(1) [of m] show ?thesis
    by (auto simp: call_errors_def)
next
  case (FetchResolves r)
  show ?thesis
  proof (cases "body r")
    case (Body reader)
    with FetchResolves errorInFetch_not_empty(2) [of r] show ?thesis
      by (auto simp: call_errors_def)
  next
    case (NoBody tm)
    with FetchResolves errorInFetch_not_empty(2) [of r] errorInCatch_not_empty show ?thesis
      by (auto simp: call_errors_def js_def)
  qed
qed

lemma send_starts_with_reset:
  "take 2 (snd (send stream onComplete onError f aborted)) = [SetResponse [], SetIdle False]"
  by (cases f) (simp_all add: send_def split: prod.splits response_body.splits)

lemma errors_set_empty_iff: "errors_set es = [] \<longleftrightarrow> (\<forall>e\<in>set es. \<not> is_SetError e)"
proof (induction es)
  case Nil
  then show ?case by simp
next
  case (Cons e es)
  then show ?case by (cases e) (simp_all add: is_SetError_def)
qed

lemma from_error_on_append:
  "errors_set xs = [] \<Longrightarrow> from_error_on (xs @ ys) = from_error_on ys"
  by (simp add: from_error_on_def errors_set_empty_iff dropWhile_append)

lemma from_error_on_simps [simp]:
  "from_error_on [] = []"
  "from_error_on (e # es) = (if is_SetError e then e # es else from_error_on es)"
  by (simp_all add: from_error_on_def)

lemma send_after_error_quiet:
  "published (from_error_on (snd (send stream onComplete onError f aborted))) = []
   \<and> idle_writes (from_error_on (snd (send stream onComplete onError f aborted))) = []
   \<and> ReaderRead \<notin> set (from_error_on (snd (send stream onComplete onError f aborted)))"
proof (cases f)
  case (FetchRejects m)
  then show ?thesis
    by (simp add: send_def report_fetch_error_def is_SetError_def)
next
  case (FetchResolves r)
  show ?thesis
  proof (cases "ok r")
    case False
    with FetchResolves show ?thesis
      by (simp add: send_def report_fetch_error_def is_SetError_def)
  next
    case True
    show ?thesis
    proof (cases "body r")
      case (Body reader)
      obtain res e t where l: "readLoop stream aborted reader [] = (res, e, t)"
        by (cases "readLoop stream aborted reader []") auto
      with True FetchResolves Body readLoop_effects(3) [OF l] show ?thesis
        by (simp add: send_def readStream_def is_SetError_def from_error_on_append)
    next
      case (NoBody tm)
      with True FetchResolves show ?thesis
        by (simp add: send_def readStream_undefined_def report_fetch_error_def
              is_SetError_def)
    qed
  qed
qed

lemma failed_fetch_idle_writes:
  "errorInFetch f \<noteq> [] \<Longrightarrow>
   idle_writes (snd (send stream onComplete onError f aborted)) = [False]"
  by (cases f) (auto simp: send_def errorInFetch_def report_fetch_error_def split: if_splits)

lemma consumed_stream_idle_writes:
  assumes "ok r" and "body r = Body reader"
  shows "idle_writes (snd (send stream onComplete onError (FetchResolves r) aborted))
           = [False, False, True]"
proof -
  obtain res e t where l: "readLoop stream aborted reader [] = (res, e, t)"
    by (cases "readLoop stream aborted reader []") auto
  with assms readLoop_effects [OF l] show ?thesis
    by (simp add: send_def readStream_def)
qed

text \<open>The text the loop ends with is the decoded text of the values it consumed.\<close>

lemma readLoop_result:
  "fst (readLoop stream aborted reader result)
     = result @ concat (map decode (consumed aborted reader))"
  by (induction stream aborted reader result rule: readLoop.induct)
     (auto simp: Let_def split: prod.splits)

lemma nonstreaming_never_publishes:
  "\<not> stream \<Longrightarrow> published (snd (snd (readLoop stream ab reader result))) = []"
  by (induction stream ab reader result rule: readLoop.induct)
     (auto simp: Let_def split: prod.splits)

lemma nonstreaming_send_publishes_only_reset:
  assumes "ok r" and "body r = Body reader"
  shows "published (snd (send False onComplete onError (FetchResolves r) aborted)) = [[]]"
proof -
  obtain res e t where l: "readLoop False aborted reader [] = (res, e, t)"
    by (cases "readLoop False aborted reader []") auto
  with assms nonstreaming_never_publishes [of False aborted reader "[]"] show ?thesis
    by (simp add: send_def readStream_def)
qed

text \<open>A read of a closed body is the read that resolves with no value and
  \<^verbatim>\<open>done\<close> set.\<close>

lemma closed_body_read:
  "readLoop stream False [] result = readLoop stream False [(False, Resolves None True)] result"
  by (simp add: decode_def startsWith_def js_def)

lemma readStream_abort_error_silent:
  "readStream ((True, Rejects (js ''AbortError'') message) # reader) stream False
       onComplete onError =
     ([], [ReaderRead, ReaderReleaseLock, SetIdle True]
            @ (if onComplete then [OnComplete []] else []))"
  by (simp add: readStream_def)

text \<open>Evaluating the model on a concrete call.\<close>

lemmas decode_eval =
  decode_def utf8_handler_def utf8_lead_def utf8_initial_def utf8_flush_def utf8_def js_def

lemmas call_eval =
  send_def readStream_def chunks_def ok_def errorInFetch_def errorInCatch_def
  report_fetch_error_def startsWith_def substring_def Let_def

section \<open>Completion callback and cancellation\<close>

text \<open>
  When the reader exists, whatever the body delivers (chunks to the end, a sentinel
  chunk, a rejected read, a cancellation) and whatever the flags, the on-complete
  callback, if supplied, is called exactly once, and its argument is the text returned:
  the decoded text of the values consumed before the loop's exit. If it is not supplied
  it is not called.
\<close>

lemma readStream_onComplete_with_reader:
  "readStream reader stream aborted onComplete onError = (result, trace) \<Longrightarrow>
   result = concat (map decode (consumed aborted reader)) \<and>
   on_complete_calls trace = (if onComplete then [result] else [])"
  using readLoop_result [of stream aborted reader "[]"]
  by (auto simp: readStream_def readLoop_effects split: prod.splits)

text \<open>The chunks \<^verbatim>\<open>"pon"\<close>, \<^verbatim>\<open>"g"\<close> and the end of the stream, in streaming mode; a
  cancellation while \<^verbatim>\<open>"ab"\<close> is read; a read that fails after \<^verbatim>\<open>"ab"\<close>.\<close>

lemma pong_stream:
  "readStream (chunks [utf8 ''pon'', utf8 ''g'']) True False True True =
     (js ''pong'',
      [ReaderRead, SetResponse (js ''pon''), ReaderRead, SetResponse (js ''pong''),
       ReaderRead, SetResponse (js ''pong''), SetIdle True, OnComplete (js ''pong'')])"
  by (simp add: call_eval decode_eval)

lemma cancelled_after_ab:
  "readStream [(True, Resolves (Some (utf8 ''ab'')) False),
               (False, Resolves (Some (utf8 ''cd'')) False)] True False True True =
     (js ''ab'',
      [ReaderRead, SetResponse (js ''ab''), ReaderReleaseLock, ReaderCancel,
       ReaderReleaseLock, SetIdle True, OnComplete (js ''ab'')])"
  by (simp add: call_eval decode_eval)

lemma read_fails_after_ab:
  "readStream [(False, Resolves (Some (utf8 ''ab'')) False),
               (False, Rejects (js ''TypeError'') (js ''network error''))]
       True False True True =
     (js ''ab'',
      [ReaderRead, SetResponse (js ''ab''), ReaderRead, SetIdle True,
       SetError (js ''Read error: network error''), ReaderCancel,
       OnError (js ''Read error: network error''), OnComplete (js ''ab'')])"
  by (simp add: call_eval decode_eval)


section \<open>The error sentinel\<close>

text \<open>
  Claim C8, as amended. For the single chunk \<^verbatim>\<open>"Error: rate limited"\<close> the error text is
  what follows the six code units of the sentinel, with its leading space:
  on-error is called with \<^verbatim>\<open>" rate limited"\<close>. On-complete is called with the whole
  chunk text, and in streaming mode the whole chunk text is published before.
\<close>

theorem rate_limited_callbacks:
  "readStream (chunks [utf8 ''Error: rate limited'']) stream False True True =
     (js ''Error: rate limited'',
      ReaderRead # (if stream then [SetResponse (js ''Error: rate limited'')] else [])
        @ [SetIdle True, SetError (js '' rate limited''), ReaderCancel,
           OnError (js '' rate limited''), OnComplete (js ''Error: rate limited'')])"
  by (simp add: call_eval decode_eval)

text \<open>The argument of on-error is not the trimmed message \<^verbatim>\<open>"rate limited"\<close>.\<close>

theorem rate_limited_on_error_counterexample:
  "on_error_calls
     (snd (readStream (chunks [utf8 ''Error: rate limited'']) True False True True))
     \<noteq> [js ''rate limited'']"
  by (simp add: call_eval decode_eval)

text \<open>
  Claim C1, as amended. The sentinel is looked for in the text of each chunk, not in the
  accumulated text. For every sequence of chunks in which some chunk's own decoded text
  starts with \<^verbatim>\<open>"Error:"\<close> and none before it does, read without cancellation or
  failure: the loop stops at that chunk after one read per chunk so far; on-error (if
  supplied) is called with that chunk's text after its first six code units, provided
  that text is not empty; on-complete (if supplied) is called with the text accumulated
  up to and including that chunk; in streaming mode the texts published are the
  accumulated texts of the chunks so far, that chunk included, and nothing of the chunks
  after it.
\<close>

theorem readStream_sentinel_chunk:
  assumes "\<forall>p\<in>set pre. \<not> startsWith (decode (Some p)) (js ''Error:'')"
      and "startsWith (decode (Some c)) (js ''Error:'')"
  shows "fst (readStream (chunks (pre @ c # post)) stream False onComplete onError)
           = accumulated (pre @ [c])
       \<and> on_error_calls (snd (readStream (chunks (pre @ c # post)) stream False onComplete onError))
           = (if onError \<and> substring (decode (Some c)) 6 \<noteq> []
              then [substring (decode (Some c)) 6] else [])
       \<and> on_complete_calls (snd (readStream (chunks (pre @ c # post)) stream False onComplete onError))
           = (if onComplete then [accumulated (pre @ [c])] else [])
       \<and> published (snd (readStream (chunks (pre @ c # post)) stream False onComplete onError))
           = (if stream then map accumulated (tl (prefixes (pre @ [c]))) else [])
       \<and> length (filter ((=) ReaderRead)
            (snd (readStream (chunks (pre @ c # post)) stream False onComplete onError)))
           = Suc (length pre)"
proof -
  from readLoop_to_sentinel [OF assms, of stream post "[]"]
  obtain t where t: "readLoop stream False (chunks (pre @ c # post)) [] =
               (accumulated (pre @ [c]), substring (decode (Some c)) 6, t)"
     and pub: "published t = (if stream then map accumulated (tl (prefixes (pre @ [c]))) else [])"
     and reads: "length (filter ((=) ReaderRead) t) = Suc (length pre)"
    by auto
  show ?thesis
    using pub reads readLoop_effects [OF t]
    by (simp add: readStream_def t)
qed

theorem readStream_sentinel_chunk_witness:
  "on_error_calls (snd (readStream
       (chunks ([utf8 ''Hi ''] @ utf8 ''Error: boom'' # [utf8 ''more''])) True False True True))
     = [js '' boom'']
   \<and> on_complete_calls (snd (readStream
       (chunks ([utf8 ''Hi ''] @ utf8 ''Error: boom'' # [utf8 ''more''])) True False True True))
     = [js ''Hi Error: boom'']
   \<and> published (snd (readStream
       (chunks ([utf8 ''Hi ''] @ utf8 ''Error: boom'' # [utf8 ''more''])) True False True True))
     = [js ''Hi '', js ''Hi Error: boom'']"
  using readStream_sentinel_chunk
    [where pre = "[utf8 ''Hi '']" and c = "utf8 ''Error: boom''" and post = "[utf8 ''more'']"
       and stream = True and onComplete = True and onError = True]
  by (simp add: decode_eval startsWith_def substring_def)

text \<open>A sentinel that is split over two chunks is not detected: the call completes as a
  success, with no error recorded and on-error not called.\<close>

theorem split_sentinel_counterexample:
  "startsWith (decode (Some (utf8 ''Err'')) @ decode (Some (utf8 ''or: boom''))) (js ''Error:'')
   \<and> startsWith (decode (Some (utf8 ''Err'' @ utf8 ''or: boom''))) (js ''Error:'')
   \<and> readStream (chunks [utf8 ''Err'', utf8 ''or: boom'']) True False True True =
       (js ''Error: boom'',
        [ReaderRead, SetResponse (js ''Err''), ReaderRead, SetResponse (js ''Error: boom''),
         ReaderRead, SetResponse (js ''Error: boom''), SetIdle True,
         OnComplete (js ''Error: boom'')])"
  by (simp add: call_eval decode_eval)

text \<open>
  Claim C10. In streaming mode, when a read delivers a value whose decoded text starts
  with \<^verbatim>\<open>"Error:"\<close>, the loop appends that text to the result, publishes the
  result and only then leaves with the text after the sentinel as the error: the
  response field holds the server's error text, prefix included.
\<close>

theorem sentinel_chunk_published:
  "startsWith (decode v) (js ''Error:'') \<Longrightarrow>
   readLoop True False ((ab, Resolves v done) # reader) result =
     (result @ decode v, substring (decode v) 6,
      ReaderRead # SetResponse (result @ decode v) # (if ab then [ReaderReleaseLock] else []))
   \<and> response (run s (snd (snd (readLoop True False ((ab, Resolves v done) # reader) result))))
       = result @ decode v
   \<and> response (run s (snd (readStream ((ab, Resolves v done) # reader) True False
                              onComplete onError))) = decode v"
  by (simp add: readStream_def Let_def)

theorem sentinel_chunk_published_witness:
  "startsWith (decode (Some (utf8 ''Error: boom''))) (js ''Error:'')
   \<and> response (run initial_state (snd (readStream
         ((False, Resolves (Some (utf8 ''Error: boom'')) False) # []) True False True True)))
       = js ''Error: boom''"
  using sentinel_chunk_published
    [where v = "Some (utf8 ''Error: boom'')" and ab = False and ?done = False
       and reader = "[]" and result = "[]" and s = initial_state
       and onComplete = True and onError = True]
  by (simp add: decode_eval startsWith_def)

section \<open>The error field across calls\<close>

text \<open>
  Claim C9. Every call starts by writing the empty string to the response field and
  false to idle. It writes the error field only with the error texts it records, which
  are never empty. So at every point of a call the error field holds the text it held
  before the call or an error text of the call itself, and a call that ends without
  an error leaves the earlier text there at every point. A call that ends with an
  error writes it at its very end: from that write on it reads nothing and writes
  neither the response field nor idle.
\<close>

theorem send_keeps_last_error:
  "send stream onComplete onError f aborted = (res, trace) \<Longrightarrow>
     take 2 trace = [SetResponse [], SetIdle False]
   \<and> errors_set trace = call_errors stream f aborted
   \<and> [] \<notin> set (call_errors stream f aborted)
   \<and> (\<forall>n. error (run s (take n trace)) = error s
          \<or> error (run s (take n trace)) \<in> set (call_errors stream f aborted))
   \<and> (call_errors stream f aborted = [] \<longrightarrow> (\<forall>n. error (run s (take n trace)) = error s))
   \<and> published (from_error_on trace) = []
   \<and> idle_writes (from_error_on trace) = []
   \<and> ReaderRead \<notin> set (from_error_on trace)"
  using send_starts_with_reset [of stream onComplete onError f aborted]
    send_errors_set [of stream onComplete onError f aborted]
    send_after_error_quiet [of stream onComplete onError f aborted]
    call_errors_not_empty [of stream f aborted]
    error_run_take [of s _ trace]
  by auto

lemma pong_after_503:
  "send True True True
     (FetchResolves \<lparr>status = 200, statusText = js ''OK'', x_callId = None,
                      body = Body (chunks [utf8 ''pon'', utf8 ''g''])\<rparr>) False =
     (Reader,
      [SetResponse [], SetIdle False, SetLastCallId [], SetIdle False,
       ReaderRead, SetResponse (js ''pon''), ReaderRead, SetResponse (js ''pong''),
       ReaderRead, SetResponse (js ''pong''), SetIdle True, OnComplete (js ''pong'')])"
  by (simp add: call_eval decode_eval)

theorem send_keeps_last_error_witness:
  "call_errors True
     (FetchResolves \<lparr>status = 200, statusText = js ''OK'', x_callId = None,
                      body = Body (chunks [utf8 ''pon'', utf8 ''g''])\<rparr>) False = []
   \<and> error (run initial_state
        (snd (send True True True
           (FetchResolves \<lparr>status = 503, statusText = js ''Service Unavailable'',
                            x_callId = None, body = Body []\<rparr>) False)))
       = js ''Error: Network error for service. (503 Service Unavailable)''
   \<and> error (run (run initial_state
        (snd (send True True True
           (FetchResolves \<lparr>status = 503, statusText = js ''Service Unavailable'',
                            x_callId = None, body = Body []\<rparr>) False)))
        [SetResponse [], SetIdle False, SetLastCallId [], SetIdle False,
         ReaderRead, SetResponse (js ''pon''), ReaderRead, SetResponse (js ''pong''),
         ReaderRead, SetResponse (js ''pong''), SetIdle True, OnComplete (js ''pong'')])
       = js ''Error: Network error for service. (503 Service Unavailable)''"
  using send_keeps_last_error [OF pong_after_503,
      where s = "run initial_state
        (snd (send True True True
           (FetchResolves \<lparr>status = 503, statusText = js ''Service Unavailable'',
                            x_callId = None, body = Body []\<rparr>) False))"]
  by (simp add: call_errors_def call_eval decode_eval initial_state_def decimal.simps)

section \<open>Defects\<close>

text \<open>
  Claim C5 fails on the code. \<^verbatim>\<open>decoder.decode(value)\<close> is called without
  \<^verbatim>\<open>{stream: true}\<close>, so the one decoder carries nothing from a chunk to the next:
  the two bytes of U+00E9, delivered in two chunks, give two replacement characters,
  while the two bytes decoded together give the character.
\<close>

theorem split_character_not_reassembled:
  "fst (readStream (chunks [[0xC3], [0xA9]]) True False True True) = [0xFFFD, 0xFFFD]
   \<and> decode (Some ([0xC3] @ [0xA9])) = [0xE9]"
  by (simp add: call_eval decode_eval)

text \<open>
  Claim C2 fails on the code. With the streaming flag false, \<^verbatim>\<open>send\<close> returns the
  final text and on-complete receives it, but nothing publishes it: the response field
  keeps the empty string written at the start of the call.
\<close>

theorem nonstreaming_response_not_published:
  "send False True True
     (FetchResolves \<lparr>status = 200, statusText = js ''OK'', x_callId = None,
                      body = Body (chunks [utf8 ''pon'', utf8 ''g''])\<rparr>) False =
     (Text (js ''pong''),
      [SetResponse [], SetIdle False, SetLastCallId [], SetIdle False,
       ReaderRead, ReaderRead, ReaderRead, SetIdle True, OnComplete (js ''pong'')])
   \<and> response (run initial_state
        [SetResponse [], SetIdle False, SetLastCallId [], SetIdle False,
         ReaderRead, ReaderRead, ReaderRead, SetIdle True, OnComplete (js ''pong'')]) = []"
  by (simp add: call_eval decode_eval initial_state_def)

text \<open>
  Claim C4 fails on the code in its last part. On status 503 \<^verbatim>\<open>send\<close> records the
  error text with the status code, calls on-error with it and resolves to
  \<^verbatim>\<open>undefined\<close> without a read, but nothing sets idle back to true.
\<close>

theorem http_503_leaves_idle_false:
  "send True True True
     (FetchResolves \<lparr>status = 503, statusText = js ''Service Unavailable'',
                      x_callId = None, body = Body []\<rparr>) False =
     (Undefined,
      [SetResponse [], SetIdle False,
       SetError (js ''Error: Network error for service. (503 Service Unavailable)''),
       OnError (js ''Error: Network error for service. (503 Service Unavailable)''),
       ConsoleError (js (''Error: Error in fetch. (Error: Network error for service. ''
                          @ ''(503 Service Unavailable))''))])
   \<and> \<not> idle (run initial_state
        [SetResponse [], SetIdle False,
         SetError (js ''Error: Network error for service. (503 Service Unavailable)''),
         OnError (js ''Error: Network error for service. (503 Service Unavailable)''),
         ConsoleError (js (''Error: Error in fetch. (Error: Network error for service. ''
                            @ ''(503 Service Unavailable))''))])"
  by (simp add: call_eval decode_eval initial_state_def decimal.simps)

text \<open>
  Claim C3 fails on the code. When the request fails, here at the transport level,
  \<^verbatim>\<open>send\<close> writes false to idle at the start and never writes true: the call has
  ended and idle stays false.
\<close>

theorem transport_failure_leaves_idle_false:
  "send True True True (FetchRejects (js ''Failed to fetch'')) False =
     (Undefined,
      [SetResponse [], SetIdle False,
       SetError (js ''Error: Having trouble connecting to chat service. (Failed to fetch)''),
       OnError (js ''Error: Having trouble connecting to chat service. (Failed to fetch)''),
       ConsoleError (js (''Error: Error in fetch. (Error: Having trouble connecting to ''
                          @ ''chat service. (Failed to fetch))''))])
   \<and> idle_writes (snd (send True True True (FetchRejects (js ''Failed to fetch'')) False))
       = [False]
   \<and> \<not> idle (run initial_state
         (snd (send True True True (FetchRejects (js ''Failed to fetch'')) False)))"
  by (simp add: call_eval decode_eval initial_state_def)

text \<open>
  Claim C6 fails on the code. A response with a success status and no body (status 204)
  starts \<^verbatim>\<open>readStream\<close> with an undefined reader. The failed read is recorded as a read
  error, idle and the error field are set, and then \<^verbatim>\<open>reader.cancel()\<close> throws before
  on-error and on-complete: on-complete, though supplied, is never called, with the
  streaming flag unset or set.
\<close>

theorem no_body_onComplete_not_called:
  "send False True True
     (FetchResolves \<lparr>status = 204, statusText = js ''No Content'', x_callId = None,
                      body = NoBody tm\<rparr>) False =
     (Undefined,
      [SetResponse [], SetIdle False, SetLastCallId [], SetIdle False, SetIdle True,
       SetError (js ''Read error: '' @ tm ''read''),
       SetError (errorInCatch (tm ''cancel'')),
       OnError (errorInCatch (tm ''cancel'')),
       ConsoleError (js ''Error: Error in fetch. ('' @ errorInCatch (tm ''cancel'') @ js '')'')])
   \<and> on_complete_calls (snd (send False True True
        (FetchResolves \<lparr>status = 204, statusText = js ''No Content'', x_callId = None,
                         body = NoBody tm\<rparr>) False)) = []
   \<and> send True True True
        (FetchResolves \<lparr>status = 204, statusText = js ''No Content'', x_callId = None,
                         body = NoBody tm\<rparr>) False =
       (Undefined,
        [SetResponse [], SetIdle False, SetLastCallId [], SetIdle False, SetIdle True,
         SetError (js ''Read error: '' @ tm ''read'')])"
  by (simp add: send_def ok_def readStream_undefined_def report_fetch_error_def)

end
